theory Spec2Isabelle
  imports Main
begin

section \<open>The trainer step base class of zenml\<close>

text \<open>
  This theory embeds \<^verbatim>\<open>zenml/core/steps/trainer/base_trainer.py\<close>: the class
  \<^verbatim>\<open>BaseTrainerStep\<close>, its constructor, \<^verbatim>\<open>get_run_fn\<close> and the five hooks that
  subclasses override. Python values the class only passes around (datasets, models,
  transform handles, file patterns given to the constructor, the items of a feature
  spec) are values of a type variable \<open>'v\<close>; an exception is a value of \<open>'x\<close>, and a
  computation that may raise returns \<open>'x + 'a\<close> with \<open>Inl\<close> for the exception.
\<close>

subsection \<open>Strings and paths: what the constructor uses of \<^verbatim>\<open>str\<close> and \<^verbatim>\<open>os.path\<close>\<close>

text \<open>
  \<^verbatim>\<open>os.path\<close> is \<^verbatim>\<open>posixpath\<close> here, on \<^verbatim>\<open>str\<close> arguments:
  \<^verbatim>\<open>
  def dirname(p):
      sep = '/'
      i = p.rfind(sep) + 1
      head = p[:i]
      if head and head != sep*len(head):
          head = head.rstrip(sep)
      return head

  def join(a, *p):
      sep = '/'
      path = a
      for b in p:
          if b.startswith(sep):
              path = b
          elif not path or path.endswith(sep):
              path += b
          else:
              path += sep + b
      return path
  \<close>
  A \<open>string\<close> is a list of bytes. The separator is one byte that is part of no
  other character of a UTF-8 text, so splitting at it agrees with Python's splitting
  of the code points.
\<close>

definition sep :: char where
  "sep = CHR ''/''"

text \<open>\<^verbatim>\<open>s.rfind(c)\<close>: the index of the last \<open>c\<close> in \<open>s\<close>, or \<open>-1\<close>.\<close>

fun rfind :: "string \<Rightarrow> char \<Rightarrow> int" where
  "rfind [] c = - 1"
| "rfind (x # xs) c =
     (let r = rfind xs c in
      if 0 \<le> r then r + 1 else if x = c then 0 else - 1)"

text \<open>\<^verbatim>\<open>s[:i]\<close>: a negative \<open>i\<close> counts from the end.\<close>

definition slice_to :: "string \<Rightarrow> int \<Rightarrow> string" where
  "slice_to s i =
     (if 0 \<le> i then take (nat i) s else take (length s - nat (- i)) s)"

text \<open>\<^verbatim>\<open>s.rstrip(c)\<close> for a one-character \<open>c\<close>.\<close>

definition rstrip :: "string \<Rightarrow> char \<Rightarrow> string" where
  "rstrip s c = rev (dropWhile (\<lambda>x. x = c) (rev s))"

definition startswith :: "string \<Rightarrow> char \<Rightarrow> bool" where
  "startswith s c = (case s of [] \<Rightarrow> False | x # _ \<Rightarrow> x = c)"

definition endswith :: "string \<Rightarrow> char \<Rightarrow> bool" where
  "endswith s c = startswith (rev s) c"

definition dirname :: "string \<Rightarrow> string" where
  "dirname p =
     (let i = rfind p sep + 1;
          head = slice_to p i
      in if head \<noteq> [] \<and> head \<noteq> replicate (length head) sep
         then rstrip head sep else head)"

definition join_step :: "string \<Rightarrow> string \<Rightarrow> string" where
  "join_step path b =
     (if startswith b sep then b
      else if path = [] \<or> endswith path sep then path @ b
      else path @ sep # b)"

definition join :: "string \<Rightarrow> string list \<Rightarrow> string" where
  "join a p = foldl join_step a p"

subsection \<open>The parent directory, in the words of the specification\<close>



subsection \<open>Dictionaries\<close>

text \<open>
  A feature spec is a \<^verbatim>\<open>dict\<close> from feature names to specs: an association list
  in insertion order. \<^verbatim>\<open>d.copy()\<close> builds a new dictionary and inserts the items of
  \<open>d\<close> in order.
\<close>

type_synonym 'v dict = "(string \<times> 'v) list"

definition dict_copy :: "'v dict \<Rightarrow> 'v dict" where
  "dict_copy d = foldl (\<lambda>new kv. new @ [kv]) [] d"

subsection \<open>What the class imports\<close>

text \<open>
  The class is built on three things that are not part of its file: the member
  \<^verbatim>\<open>trainer\<close> of the enumeration \<^verbatim>\<open>zenml.utils.enums.StepTypes\<close>, the constructor
  of the super class \<^verbatim>\<open>zenml.core.steps.base_step.BaseStep\<close>, and
  \<^verbatim>\<open>tft.TFTransformOutput\<close> with its method \<^verbatim>\<open>transformed_feature_spec\<close>. They
  are parameters of the model. The super constructor takes the keyword arguments
  and yields the part of the instance it sets up, or raises; the two functions of
  \<^verbatim>\<open>tensorflow_transform\<close> may raise as well (they read the file system). The
  super class is taken to leave the assignment and the lookup of attributes as
  Python defines them for a plain object, and to bind none of the names that
  \<^verbatim>\<open>BaseTrainerStep\<close> uses.
\<close>

record enum_member =
  name :: string

record ('k, 'b, 'v, 'x) externals =
  StepTypes_trainer :: enum_member
  BaseStep_init :: "'k \<Rightarrow> 'x + 'b"
  TFTransformOutput :: "string \<Rightarrow> 'x + 'v"
  transformed_feature_spec :: "'v \<Rightarrow> 'x + 'v dict"

subsection \<open>The class and its instances\<close>

text \<open>The class attribute: \<^verbatim>\<open>STEP_TYPE = StepTypes.trainer.name\<close>.\<close>

record BaseTrainerStep_class =
  STEP_TYPE :: string

definition class_body :: "('k, 'b, 'v, 'x) externals \<Rightarrow> BaseTrainerStep_class" where
  "class_body env = \<lparr>STEP_TYPE = name (StepTypes_trainer env)\<rparr>"

text \<open>
  The attributes of an instance: \<open>base\<close> is what the super constructor set up, the
  other six are assigned by \<^verbatim>\<open>__init__\<close>. \<open>None\<close> is Python's \<^verbatim>\<open>None\<close>.
\<close>

record ('b, 'v) BaseTrainerStep =
  base :: 'b
  serving_model_dir :: "string option"
  transform_output :: "string option"
  train_files :: "'v option"
  eval_files :: "'v option"
  schema :: "'v dict option"
  log_dir :: "string option"

text \<open>
  \<^verbatim>\<open>
  if self.transform_output is not None:
      tf_transform_output = tft.TFTransformOutput(self.transform_output)
      self.schema = tf_transform_output.transformed_feature_spec().copy()
  \<close>
\<close>

definition infer_schema ::
  "('k, 'b, 'v, 'x) externals \<Rightarrow> ('b, 'v) BaseTrainerStep \<Rightarrow> 'x + ('b, 'v) BaseTrainerStep" where
  "infer_schema env self =
     (case transform_output self of
        None \<Rightarrow> Inr self
      | Some t \<Rightarrow>
          (case TFTransformOutput env t of
             Inl e \<Rightarrow> Inl e
           | Inr tf_transform_output \<Rightarrow>
               (case transformed_feature_spec env tf_transform_output of
                  Inl e \<Rightarrow> Inl e
                | Inr d \<Rightarrow> Inr (self\<lparr>schema := Some (dict_copy d)\<rparr>))))"

text \<open>
  \<^verbatim>\<open>
  if self.serving_model_dir is not None:
      self.log_dir = os.path.join(
          os.path.dirname(self.serving_model_dir), 'logs')
  \<close>
\<close>

definition infer_log_dir :: "('b, 'v) BaseTrainerStep \<Rightarrow> ('b, 'v) BaseTrainerStep" where
  "infer_log_dir self =
     (case serving_model_dir self of
        None \<Rightarrow> self
      | Some d \<Rightarrow> self\<lparr>log_dir := Some (join (dirname d) [''logs''])\<rparr>)"

text \<open>
  \<^verbatim>\<open>__init__(self, serving_model_dir=None, transform_output=None, train_files=None,
  eval_files=None, **kwargs)\<close>: the super constructor first, the six assignments, then
  the two inferences. The result is the instance, or the exception that ended the
  construction. The first two arguments are annotated \<^verbatim>\<open>Text\<close>: a string or
  \<^verbatim>\<open>None\<close>; on strings the two path functions do not raise.
\<close>

definition init ::
  "('k, 'b, 'v, 'x) externals \<Rightarrow> string option \<Rightarrow> string option \<Rightarrow> 'v option \<Rightarrow> 'v option \<Rightarrow> 'k
     \<Rightarrow> 'x + ('b, 'v) BaseTrainerStep" where
  "init env serving_model_dir_arg transform_output_arg train_files_arg eval_files_arg kwargs =
     (case BaseStep_init env kwargs of
        Inl e \<Rightarrow> Inl e
      | Inr b \<Rightarrow>
          (case infer_schema env
                  \<lparr>base = b,
                   serving_model_dir = serving_model_dir_arg,
                   transform_output = transform_output_arg,
                   train_files = train_files_arg,
                   eval_files = eval_files_arg,
                   schema = None,
                   log_dir = None\<rparr> of
             Inl e \<Rightarrow> Inl e
           | Inr self \<Rightarrow> Inr (infer_log_dir self)))"

subsection \<open>Values that methods return\<close>

text \<open>
  A method returns \<^verbatim>\<open>None\<close>, some object, or a bound method: the function of the
  class namespace it was made from, together with the instance it is bound to
  (\<^verbatim>\<open>__func__\<close> and \<^verbatim>\<open>__self__\<close>).
\<close>

datatype func =
  Func_get_run_fn
| Func_run_fn
| Func_input_fn
| Func_get_serve_tf_examples_fn
| Func_get_ce_eval_tf_examples_fn
| Func_model_fn

datatype ('b, 'v) pyval =
  PyNone
| PyObj 'v
| PyMethod func "('b, 'v) BaseTrainerStep"

subsection \<open>The methods\<close>

text \<open>
  An instance method takes the instance and returns it with its result; a static
  method has no access to an instance. \<^verbatim>\<open>get_run_fn\<close> evaluates \<^verbatim>\<open>self.run_fn\<close>,
  which binds the function \<^verbatim>\<open>run_fn\<close> of the class to \<^verbatim>\<open>self\<close>. The body of each
  of the five hooks is its docstring and \<^verbatim>\<open>pass\<close>. The two static methods
  \<^verbatim>\<open>_get_serve_tf_examples_fn\<close> and \<^verbatim>\<open>_get_ce_eval_tf_examples_fn\<close> are written
  without the leading underscore.
\<close>

definition get_run_fn ::
  "('b, 'v) BaseTrainerStep \<Rightarrow> 'x + ('b, 'v) BaseTrainerStep \<times> ('b, 'v) pyval" where
  "get_run_fn self = Inr (self, PyMethod Func_run_fn self)"

definition run_fn ::
  "('b, 'v) BaseTrainerStep \<Rightarrow> 'x + ('b, 'v) BaseTrainerStep \<times> ('b, 'v) pyval" where
  "run_fn self = Inr (self, PyNone)"

definition input_fn ::
  "('b, 'v) BaseTrainerStep \<Rightarrow> string list \<Rightarrow> 'v
     \<Rightarrow> 'x + ('b, 'v) BaseTrainerStep \<times> ('b, 'v) pyval" where
  "input_fn self file_pattern tf_transform_output = Inr (self, PyNone)"

definition get_serve_tf_examples_fn :: "'v \<Rightarrow> 'v \<Rightarrow> 'x + ('b, 'v) pyval" where
  "get_serve_tf_examples_fn model tf_transform_output = Inr PyNone"

definition get_ce_eval_tf_examples_fn :: "'v \<Rightarrow> 'v \<Rightarrow> 'x + ('b, 'v) pyval" where
  "get_ce_eval_tf_examples_fn model tf_transform_output = Inr PyNone"

definition model_fn :: "'v \<Rightarrow> 'v \<Rightarrow> 'x + ('b, 'v) pyval" where
  "model_fn train_dataset eval_dataset = Inr PyNone"

subsection \<open>Calls on an instance\<close>

text \<open>
  What a call can change is the class object and the instance. \<^verbatim>\<open>BaseTrainerStep(...)\<close>
  runs the constructor on a fresh instance of the class. A call \<^verbatim>\<open>obj.m(...)\<close>
  passes the instance to an instance method and stores what the method made of
  it; it passes nothing but the arguments to a static method.
\<close>

record ('b, 'v) world =
  cls :: BaseTrainerStep_class
  inst :: "('b, 'v) BaseTrainerStep"

definition new ::
  "('k, 'b, 'v, 'x) externals \<Rightarrow> string option \<Rightarrow> string option \<Rightarrow> 'v option \<Rightarrow> 'v option \<Rightarrow> 'k
     \<Rightarrow> 'x + ('b, 'v) world" where
  "new env serving_model_dir_arg transform_output_arg train_files_arg eval_files_arg kwargs =
     (case init env serving_model_dir_arg transform_output_arg train_files_arg
             eval_files_arg kwargs of
        Inl e \<Rightarrow> Inl e
      | Inr self \<Rightarrow> Inr \<lparr>cls = class_body env, inst = self\<rparr>)"

datatype 'v operation =
  Get_run_fn
| Run_fn
| Input_fn "string list" 'v
| Get_serve_tf_examples_fn 'v 'v
| Get_ce_eval_tf_examples_fn 'v 'v
| Model_fn 'v 'v

definition instance_call ::
  "('b, 'v) world \<Rightarrow> (('b, 'v) BaseTrainerStep \<Rightarrow> 'x + ('b, 'v) BaseTrainerStep \<times> ('b, 'v) pyval)
     \<Rightarrow> 'x + ('b, 'v) world \<times> ('b, 'v) pyval" where
  "instance_call w m =
     (case m (inst w) of
        Inl e \<Rightarrow> Inl e
      | Inr (self, r) \<Rightarrow> Inr (w\<lparr>inst := self\<rparr>, r))"

definition static_call ::
  "('b, 'v) world \<Rightarrow> 'x + ('b, 'v) pyval \<Rightarrow> 'x + ('b, 'v) world \<times> ('b, 'v) pyval" where
  "static_call w res = (case res of Inl e \<Rightarrow> Inl e | Inr r \<Rightarrow> Inr (w, r))"

primrec call ::
  "('b, 'v) world \<Rightarrow> 'v operation \<Rightarrow> 'x + ('b, 'v) world \<times> ('b, 'v) pyval" where
  "call w Get_run_fn = instance_call w get_run_fn"
| "call w Run_fn = instance_call w run_fn"
| "call w (Input_fn file_pattern t) = instance_call w (\<lambda>self. input_fn self file_pattern t)"
| "call w (Get_serve_tf_examples_fn model t) = static_call w (get_serve_tf_examples_fn model t)"
| "call w (Get_ce_eval_tf_examples_fn model t) = static_call w (get_ce_eval_tf_examples_fn model t)"
| "call w (Model_fn train_dataset eval_dataset) = static_call w (model_fn train_dataset eval_dataset)"

text \<open>A sequence of calls on the same instance ends at the first exception.\<close>

fun calls ::
  "('b, 'v) world \<Rightarrow> 'v operation list \<Rightarrow> 'x + ('b, 'v) world \<times> ('b, 'v) pyval list" where
  "calls w [] = Inr (w, [])"
| "calls w (c # cs) =
     (case call w c of
        Inl e \<Rightarrow> Inl e
      | Inr (w', r) \<Rightarrow>
          (case calls w' cs of
             Inl e \<Rightarrow> Inl e
           | Inr (w'', rs) \<Rightarrow> Inr (w'', r # rs)))"

text \<open>
  \<^verbatim>\<open>obj.STEP_TYPE\<close>: no assignment of the class binds this name in the instance, so
  the lookup ends at the class attribute.
\<close>

definition getattr_STEP_TYPE :: "('b, 'v) world \<Rightarrow> string" where
  "getattr_STEP_TYPE w = STEP_TYPE (cls w)"

subsection \<open>An environment to run the model in\<close>

text \<open>
  One transform output exists, at \<^verbatim>\<open>/a/b/transform\<close>, with two features; reading
  any other raises. The super constructor keeps the keyword arguments. Python
  objects are written as strings here.
\<close>

definition example_env :: "(string dict, string dict, string, string) externals" where
  "example_env =
     \<lparr>StepTypes_trainer = \<lparr>name = ''trainer''\<rparr>,
      BaseStep_init = (\<lambda>kwargs. Inr kwargs),
      TFTransformOutput = (\<lambda>path. Inr path),
      transformed_feature_spec =
        (\<lambda>h. if h = ''/a/b/transform''
             then Inr [(''age'', ''FixedLenFeature int64''), (''label'', ''FixedLenFeature float32'')]
             else Inl ''NotFoundError'')\<rparr>"

definition example_step :: "(string dict, string) BaseTrainerStep" where
  "example_step =
     \<lparr>base = [],
      serving_model_dir = Some ''/a/b/model'',
      transform_output = Some ''/a/b/transform'',
      train_files = Some ''train-*'',
      eval_files = None,
      schema = Some [(''age'', ''FixedLenFeature int64''), (''label'', ''FixedLenFeature float32'')],
      log_dir = Some ''/a/b/logs''\<rparr>"

definition example_bare_step :: "(string dict, string) BaseTrainerStep" where
  "example_bare_step =
     \<lparr>base = [(''name'', ''trainer_1'')],
      serving_model_dir = None,
      transform_output = None,
      train_files = None,
      eval_files = None,
      schema = None,
      log_dir = None\<rparr>"


definition example_world :: "(string dict, string) world" where
  "example_world = \<lparr>cls = class_body example_env, inst = example_step\<rparr>"

definition example_calls :: "string operation list" where
  "example_calls =
     [Run_fn,
      Input_fn [''train-*''] ''/a/b/transform'',
      Get_run_fn,
      Model_fn ''train dataset'' ''eval dataset'',
      Get_serve_tf_examples_fn ''model'' ''/a/b/transform'',
      Get_ce_eval_tf_examples_fn ''model'' ''/a/b/transform'']"

section \<open>Strings and paths\<close>














lemmas path_defs =
  join_def join_step_def dirname_def sep_def slice_to_def rstrip_def startswith_def endswith_def


text \<open>
  The edges of the two path functions: a path that ends in a separator keeps all
  its names, a path with no separator has the empty directory name, and the
  directory name of the root is the root.
\<close>

lemma log_dir_edges:
  "join (dirname ''/a/b/model/'') [''logs''] = ''/a/b/model/logs''"
  "join (dirname ''model'') [''logs''] = ''logs''"
  "join (dirname ''/model'') [''logs''] = ''/logs''"
  "join (dirname ''/a//model'') [''logs''] = ''/a/logs''"
  by (simp_all add: path_defs)

section \<open>The constructor\<close>

lemma dict_copy_from: "foldl (\<lambda>new kv. new @ [kv]) acc d = acc @ d"
  by (induction d arbitrary: acc) simp_all

lemma dict_copy_same: "dict_copy d = d"
  by (simp add: dict_copy_def dict_copy_from)

lemma infer_schema_fields:
  assumes "infer_schema env self = Inr self'"
  shows "base self' = base self"
    and "serving_model_dir self' = serving_model_dir self"
    and "transform_output self' = transform_output self"
    and "train_files self' = train_files self"
    and "eval_files self' = eval_files self"
    and "log_dir self' = log_dir self"
  using assms by (auto simp: infer_schema_def split: option.splits sum.splits)

lemma infer_log_dir_fields:
  shows "base (infer_log_dir self) = base self"
    and "serving_model_dir (infer_log_dir self) = serving_model_dir self"
    and "transform_output (infer_log_dir self) = transform_output self"
    and "train_files (infer_log_dir self) = train_files self"
    and "eval_files (infer_log_dir self) = eval_files self"
    and "schema (infer_log_dir self) = schema self"
  by (simp_all add: infer_log_dir_def split: option.splits)

lemma infer_log_dir_log_dir:
  "log_dir (infer_log_dir self) =
     (case serving_model_dir self of
        None \<Rightarrow> log_dir self
      | Some d \<Rightarrow> Some (join (dirname d) [''logs'']))"
  by (simp add: infer_log_dir_def split: option.splits)

text \<open>
  A construction that returns went through the three stages: the super
  constructor returned, the schema inference returned, the log directory was set.
\<close>

lemma init_stages:
  assumes "init env smd tout tf ef kw = Inr self"
  obtains b self1 where
    "BaseStep_init env kw = Inr b"
    "infer_schema env
       \<lparr>base = b, serving_model_dir = smd, transform_output = tout, train_files = tf,
        eval_files = ef, schema = None, log_dir = None\<rparr> = Inr self1"
    "self = infer_log_dir self1"
  using assms by (auto simp: init_def split: sum.splits)

lemma init_log_dir:
  assumes "init env smd tout tf ef kw = Inr self"
  shows "log_dir self =
           (case smd of None \<Rightarrow> None | Some d \<Rightarrow> Some (join (dirname d) [''logs'']))"
proof -
  from assms obtain b self1 where
    s1: "infer_schema env
           \<lparr>base = b, serving_model_dir = smd, transform_output = tout, train_files = tf,
            eval_files = ef, schema = None, log_dir = None\<rparr> = Inr self1"
    and s2: "self = infer_log_dir self1"
    by (rule init_stages)
  have "serving_model_dir self1 = smd" "log_dir self1 = None"
    using infer_schema_fields [OF s1] by simp_all
  then show ?thesis
    using s2 by (simp add: infer_log_dir_log_dir split: option.splits)
qed

text \<open>The constructor runs in the example environment, and it can raise.\<close>

lemma example_init:
  "init example_env (Some ''/a/b/model'') (Some ''/a/b/transform'') (Some ''train-*'') None []
     = Inr example_step"
  by (simp add: init_def example_env_def example_step_def infer_schema_def infer_log_dir_def
      dict_copy_same path_defs)

lemma example_bare_init:
  "init example_env None None None None [(''name'', ''trainer_1'')] = Inr example_bare_step"
  by (simp add: init_def example_env_def example_bare_step_def infer_schema_def
      infer_log_dir_def)

lemma example_init_raises:
  "init example_env (Some ''/a/b/model'') (Some ''/nowhere'') None None []
     = Inl ''NotFoundError''"
  by (simp add: init_def example_env_def infer_schema_def)

text \<open>
  C1. When the constructor returns, \<open>schema\<close> is not \<open>None\<close> exactly when the
  argument \<open>transform_output\<close> was not \<open>None\<close>, and \<open>log_dir\<close> is not \<open>None\<close> exactly
  when the argument \<open>serving_model_dir\<close> was not \<open>None\<close>.
\<close>

theorem init_schema_log_dir_iff:
  assumes "init env smd tout tf ef kw = Inr self"
  shows "(schema self \<noteq> None \<longleftrightarrow> tout \<noteq> None) \<and> (log_dir self \<noteq> None \<longleftrightarrow> smd \<noteq> None)"
proof -
  from assms obtain b self1 where
    s1: "infer_schema env
           \<lparr>base = b, serving_model_dir = smd, transform_output = tout, train_files = tf,
            eval_files = ef, schema = None, log_dir = None\<rparr> = Inr self1"
    and s2: "self = infer_log_dir self1"
    by (rule init_stages)
  have "schema self = schema self1"
    using s2 by (simp add: infer_log_dir_fields)
  moreover have "schema self1 \<noteq> None \<longleftrightarrow> tout \<noteq> None"
    using s1 by (auto simp: infer_schema_def split: option.splits sum.splits)
  moreover have "log_dir self \<noteq> None \<longleftrightarrow> smd \<noteq> None"
    using init_log_dir [OF assms] by (simp split: option.splits)
  ultimately show ?thesis by simp
qed

theorem init_schema_log_dir_iff_witness:
  "(\<exists>self. init example_env (Some ''/a/b/model'') (Some ''/a/b/transform'') (Some ''train-*'')
              None [] = Inr self
      \<and> schema self \<noteq> None \<and> log_dir self \<noteq> None)
   \<and> (\<exists>self. init example_env None None None None [(''name'', ''trainer_1'')] = Inr self
      \<and> schema self = None \<and> log_dir self = None)"
  using init_schema_log_dir_iff [OF example_init] init_schema_log_dir_iff [OF example_bare_init]
    example_init example_bare_init
  by simp

text \<open>
  C2. When the constructor is given a transform output and returns, \<open>schema\<close> is the
  feature spec that \<^verbatim>\<open>tft.TFTransformOutput\<close> of that path reports: its dictionary
  from feature names to specs.
\<close>

theorem init_schema_is_feature_spec:
  assumes "init env smd (Some t) tf ef kw = Inr self"
  shows "\<exists>h d. TFTransformOutput env t = Inr h \<and> transformed_feature_spec env h = Inr d
           \<and> schema self = Some d"
proof -
  from assms obtain b self1 where
    s1: "infer_schema env
           \<lparr>base = b, serving_model_dir = smd, transform_output = Some t, train_files = tf,
            eval_files = ef, schema = None, log_dir = None\<rparr> = Inr self1"
    and s2: "self = infer_log_dir self1"
    by (rule init_stages)
  from s1 obtain h d where
    "TFTransformOutput env t = Inr h" "transformed_feature_spec env h = Inr d"
    "schema self1 = Some d"
    by (auto simp: infer_schema_def dict_copy_same split: sum.splits)
  then show ?thesis
    using s2 by (auto simp: infer_log_dir_fields)
qed

theorem init_schema_is_feature_spec_witness:
  "\<exists>self. init example_env (Some ''/a/b/model'') (Some ''/a/b/transform'') (Some ''train-*'')
             None [] = Inr self
     \<and> TFTransformOutput example_env ''/a/b/transform'' = Inr ''/a/b/transform''
     \<and> transformed_feature_spec example_env ''/a/b/transform''
         = Inr [(''age'', ''FixedLenFeature int64''), (''label'', ''FixedLenFeature float32'')]
     \<and> schema self
         = Some [(''age'', ''FixedLenFeature int64''), (''label'', ''FixedLenFeature float32'')]"
  using init_schema_is_feature_spec [OF example_init] example_init
  by (simp add: example_env_def)





text \<open>
  C7. The log directory depends on the argument \<open>serving_model_dir\<close> alone: two
  constructions that return, with the same \<open>serving_model_dir\<close> and any other
  arguments, in any two environments, end with the same \<open>log_dir\<close>.
\<close>

theorem init_log_dir_deterministic:
  assumes "init env1 smd tout1 tf1 ef1 kw1 = Inr self1"
    and "init env2 smd tout2 tf2 ef2 kw2 = Inr self2"
  shows "log_dir self1 = log_dir self2"
  using init_log_dir [OF assms(1)] init_log_dir [OF assms(2)] by simp

lemma example_other_init:
  "init example_env (Some ''/a/b/model'') None None (Some ''eval-*'') [(''name'', ''trainer_1'')]
     = Inr (example_bare_step
              \<lparr>serving_model_dir := Some ''/a/b/model'', eval_files := Some ''eval-*'',
               log_dir := Some ''/a/b/logs''\<rparr>)"
  by (simp add: init_def example_env_def example_bare_step_def infer_schema_def
      infer_log_dir_def path_defs)

theorem init_log_dir_deterministic_witness:
  "\<exists>self1 self2.
     init example_env (Some ''/a/b/model'') (Some ''/a/b/transform'') (Some ''train-*'') None []
       = Inr self1
     \<and> init example_env (Some ''/a/b/model'') None None (Some ''eval-*'')
         [(''name'', ''trainer_1'')] = Inr self2
     \<and> base self1 \<noteq> base self2
     \<and> log_dir self1 = log_dir self2"
  using init_log_dir_deterministic [OF example_init example_other_init]
    example_init example_other_init
  by (simp add: example_step_def example_bare_step_def)

text \<open>
  C9. When the constructor returns, the attributes \<open>serving_model_dir\<close>,
  \<open>transform_output\<close>, \<open>train_files\<close> and \<open>eval_files\<close> are the arguments of these
  names, \<open>None\<close> included.
\<close>

theorem init_stores_arguments:
  assumes "init env smd tout tf ef kw = Inr self"
  shows "serving_model_dir self = smd \<and> transform_output self = tout
     \<and> train_files self = tf \<and> eval_files self = ef"
proof -
  from assms obtain b self1 where
    s1: "infer_schema env
           \<lparr>base = b, serving_model_dir = smd, transform_output = tout, train_files = tf,
            eval_files = ef, schema = None, log_dir = None\<rparr> = Inr self1"
    and s2: "self = infer_log_dir self1"
    by (rule init_stages)
  show ?thesis
    using infer_schema_fields [OF s1] s2 by (simp add: infer_log_dir_fields)
qed

theorem init_stores_arguments_witness:
  "\<exists>self. init example_env (Some ''/a/b/model'') (Some ''/a/b/transform'') (Some ''train-*'')
             None [] = Inr self
     \<and> serving_model_dir self = Some ''/a/b/model''
     \<and> transform_output self = Some ''/a/b/transform''
     \<and> train_files self = Some ''train-*''
     \<and> eval_files self = None"
  using init_stores_arguments [OF example_init] example_init
  by simp

section \<open>The hooks and \<^verbatim>\<open>get_run_fn\<close>\<close>

lemmas method_defs =
  instance_call_def static_call_def get_run_fn_def run_fn_def input_fn_def
  get_serve_tf_examples_fn_def get_ce_eval_tf_examples_fn_def model_fn_def

lemma call_world:
  assumes "call w c = Inr (w', r)"
  shows "w' = w"
  using assms by (cases c) (auto simp: method_defs)

lemma calls_world:
  assumes "calls w cs = (Inr (w', rs) :: 'x + _)"
  shows "w' = w"
  using assms
proof (induction cs arbitrary: w rs)
  case Nil
  then show ?case by simp
next
  case (Cons c cs)
  from Cons.prems obtain w1 r rs1 where
    c: "call w c = (Inr (w1, r) :: 'x + _)" and cs: "calls w1 cs = (Inr (w', rs1) :: 'x + _)"
    by (auto split: sum.splits)
  have "w1 = w" using c by (rule call_world)
  moreover have "w' = w1" using cs by (rule Cons.IH)
  ultimately show ?case by simp
qed

lemma example_new:
  "new example_env (Some ''/a/b/model'') (Some ''/a/b/transform'') (Some ''train-*'') None []
     = Inr example_world"
  by (simp add: new_def example_init example_world_def)

lemma example_calls_run:
  "calls example_world example_calls =
     (Inr (example_world,
           [PyNone, PyNone, PyMethod Func_run_fn example_step, PyNone, PyNone, PyNone])
      :: string + _)"
  by (simp add: example_calls_def example_world_def method_defs)

text \<open>
  C4. No hook raises: \<^verbatim>\<open>run_fn\<close>, \<^verbatim>\<open>input_fn\<close>, \<^verbatim>\<open>model_fn\<close> and the two signature
  hooks return for every instance and all arguments, called as functions or on an
  instance.
\<close>

theorem hooks_do_not_raise:
  "(\<exists>r. run_fn self = Inr r)
   \<and> (\<exists>r. input_fn self file_pattern t = Inr r)
   \<and> (\<exists>r. model_fn train_dataset eval_dataset = Inr r)
   \<and> (\<exists>r. get_serve_tf_examples_fn model t = Inr r)
   \<and> (\<exists>r. get_ce_eval_tf_examples_fn model t = Inr r)
   \<and> (\<exists>r. call w c = Inr r)"
proof -
  have "\<exists>r. call w c = Inr r"
    by (cases c) (simp_all add: method_defs)
  then show ?thesis
    by (simp add: method_defs)
qed

text \<open>
  C5. Calls of the hooks leave the instance as it was: after any sequence of calls
  that returns, each of \<open>serving_model_dir\<close>, \<open>transform_output\<close>, \<open>train_files\<close>,
  \<open>eval_files\<close>, \<open>schema\<close> and \<open>log_dir\<close> has the value it had before, and so has the
  whole instance.
\<close>

theorem hooks_leave_instance:
  assumes "calls w cs = Inr (w', rs)"
  shows "serving_model_dir (inst w') = serving_model_dir (inst w)
     \<and> transform_output (inst w') = transform_output (inst w)
     \<and> train_files (inst w') = train_files (inst w)
     \<and> eval_files (inst w') = eval_files (inst w)
     \<and> schema (inst w') = schema (inst w)
     \<and> log_dir (inst w') = log_dir (inst w)
     \<and> inst w' = inst w"
  using calls_world [OF assms] by simp

theorem hooks_leave_instance_witness:
  "\<exists>w' rs. calls example_world example_calls = (Inr (w', rs) :: string + _)
     \<and> inst w' = example_step
     \<and> schema (inst w')
         = Some [(''age'', ''FixedLenFeature int64''), (''label'', ''FixedLenFeature float32'')]
     \<and> log_dir (inst w') = Some ''/a/b/logs''"
  using hooks_leave_instance [OF example_calls_run] example_calls_run
  by (simp add: example_world_def example_step_def)

text \<open>
  C6. Every hook returns \<^verbatim>\<open>None\<close>: \<^verbatim>\<open>run_fn\<close>, \<^verbatim>\<open>input_fn\<close>, \<^verbatim>\<open>model_fn\<close> and the two
  signature hooks, for all arguments.
\<close>

theorem hooks_return_none:
  "(\<exists>self'. run_fn self = Inr (self', PyNone))
   \<and> (\<exists>self'. input_fn self file_pattern t = Inr (self', PyNone))
   \<and> model_fn train_dataset eval_dataset = Inr PyNone
   \<and> get_serve_tf_examples_fn model t = Inr PyNone
   \<and> get_ce_eval_tf_examples_fn model t = Inr PyNone"
  by (simp add: method_defs)


text \<open>
  C10. \<^verbatim>\<open>STEP_TYPE\<close> read on an instance is the name of \<^verbatim>\<open>StepTypes.trainer\<close>, right
  after the construction and after any sequence of calls of \<^verbatim>\<open>get_run_fn\<close> and the
  hooks.
\<close>

theorem step_type_invariant:
  assumes "new env smd tout tf ef kw = Inr w"
    and "calls w cs = Inr (w', rs)"
  shows "getattr_STEP_TYPE w = name (StepTypes_trainer env)
     \<and> getattr_STEP_TYPE w' = name (StepTypes_trainer env)"
proof -
  have "cls w = class_body env"
    using assms(1) by (auto simp: new_def split: sum.splits)
  then have "getattr_STEP_TYPE w = name (StepTypes_trainer env)"
    by (simp add: getattr_STEP_TYPE_def class_body_def)
  then show ?thesis
    using calls_world [OF assms(2)] by simp
qed

theorem step_type_invariant_witness:
  "\<exists>w w' rs.
     new example_env (Some ''/a/b/model'') (Some ''/a/b/transform'') (Some ''train-*'') None []
       = Inr w
     \<and> calls w example_calls = (Inr (w', rs) :: string + _)
     \<and> getattr_STEP_TYPE w = ''trainer''
     \<and> getattr_STEP_TYPE w' = ''trainer''"
  using step_type_invariant [OF example_new example_calls_run] example_new example_calls_run
  by (auto simp: example_env_def)

end
